theory Spec2Isabelle
  imports Complex_Main
begin

section \<open>Python values used by the tax model\<close>

text \<open>
  Exceptions of the Python source are values of the type \<open>error\<close>; a computation that
  may raise returns \<open>error + 'a\<close> with \<open>Inl\<close> for the raised exception.
  \<open>ValidationError\<close> is what pydantic raises when a field validator fails.
\<close>

datatype error =
    ValueError | KeyError | AssertionError | AttributeError | ZeroDivisionError
  | ValidationError

subsection \<open>Double-precision arithmetic\<close>

text \<open>
  A Python \<open>float\<close> is an IEEE 754 binary64 number. A finite double is a rational
  \<open>m * 2 ^ e\<close> with \<open>\<bar>m\<bar> < 2 ^ 53\<close>, and every arithmetic operation returns the exact
  result rounded to the nearest double, ties going to the even significand. The model
  keeps the value of a double as a \<open>rat\<close> and rounds with \<open>fl\<close> after each
  operation. The exponent range (overflow to infinity, subnormal numbers) is not
  modelled: all quantities of the tax model are far inside the normal range.

  \<open>WholeDollar\<close> fields hold doubles with integral values. The model keeps them as
  \<open>int\<close>: sums, differences, comparisons and integral products of such doubles are
  exact as long as the magnitudes stay below \<open>2 ^ 53\<close> (about nine quadrillion
  dollars), which is the range the model covers.
\<close>

definition round_half_even :: "rat \<Rightarrow> int" where
  "round_half_even x =
     (let n = \<lfloor>x\<rfloor>; d = x - of_int n
      in if d < 1 / 2 then n else if 1 / 2 < d then n + 1 else if even n then n else n + 1)"

function bit_length :: "int \<Rightarrow> int" where
  "bit_length n = (if n \<le> 0 then 0 else 1 + bit_length (n div 2))"
  by pat_completeness auto
termination
  by (relation "measure nat") auto

declare bit_length.simps [simp del]

definition ilog2 :: "rat \<Rightarrow> int" where
  \<comment> \<open>\<open>\<lfloor>log 2 \<bar>x\<bar>\<rfloor>\<close> for \<open>x \<noteq> 0\<close>, from the bit lengths of numerator and denominator\<close>
  "ilog2 x =
     (let (p, q) = quotient_of \<bar>x\<bar>;
          d = bit_length p - bit_length q
      in if 2 powi d \<le> \<bar>x\<bar> then d else d - 1)"

definition fl :: "rat \<Rightarrow> rat" where
  \<comment> \<open>round to the nearest number with a 53-bit significand, ties to even\<close>
  "fl x = (if x = 0 then 0
           else let u = 2 powi (ilog2 x - 52) in of_int (round_half_even (x / u)) * u)"

definition fmul :: "rat \<Rightarrow> rat \<Rightarrow> rat" where
  "fmul x y = fl (x * y)"

definition fdiv :: "rat \<Rightarrow> rat \<Rightarrow> error + rat" where
  "fdiv x y = (if y = 0 then Inl ZeroDivisionError else Inr (fl (x / y)))"

definition float4 :: "int \<Rightarrow> rat" where
  \<comment> \<open>the double denoted by a literal with four decimals: \<open>float4 512\<close> is \<open>0.0512\<close>\<close>
  "float4 k = fl (of_int k / 10000)"

definition py_round :: "rat \<Rightarrow> int" where
  \<comment> \<open>\<open>int(round(x, 0))\<close>: Python rounds a float to the nearest integer, ties to even\<close>
  "py_round x = round_half_even x"

fun py_max :: "int list \<Rightarrow> error + int" where
  "py_max [] = Inl ValueError"
| "py_max (x # xs) = Inr (fold max xs x)"

fun py_min :: "int list \<Rightarrow> error + int" where
  "py_min [] = Inl ValueError"
| "py_min (x # xs) = Inr (fold min xs x)"

definition getitem :: "(int \<times> 'v) list \<Rightarrow> int \<Rightarrow> error + 'v" where
  \<comment> \<open>\<open>d[k]\<close> on a dict\<close>
  "getitem d k = (case map_of d k of None \<Rightarrow> Inl KeyError | Some v \<Rightarrow> Inr v)"

subsection \<open>Strings\<close>

text \<open>
  A Python \<open>str\<close> is a sequence of Unicode code points, here a list of integers.
  \<open>literal\<close> gives the \<open>str\<close> of a literal written with ASCII characters.
\<close>

type_synonym str = "int list"

definition literal :: "string \<Rightarrow> str" where
  "literal s = map of_char s"

definition decimal_zeros :: "int list" where
  \<comment> \<open>the code point of the digit zero of every block of decimal digits (general
      category Nd) of Unicode 14.0, the character database of Python 3.11; the ten
      digits of a block are consecutive\<close>
  "decimal_zeros =
     [48, 1632, 1776, 1984, 2406, 2534, 2662, 2790,
      2918, 3046, 3174, 3302, 3430, 3558, 3664, 3792,
      3872, 4160, 4240, 6112, 6160, 6470, 6608, 6784,
      6800, 6992, 7088, 7232, 7248, 42528, 43216, 43264,
      43472, 43504, 43600, 44016, 65296, 66720, 68912, 69734,
      69872, 69942, 70096, 70384, 70736, 70864, 71248, 71360,
      71472, 71904, 72016, 72784, 73040, 73120, 92768, 92864,
      93008, 120782, 120792, 120802, 120812, 120822, 123200, 123632,
      125264, 130032]"

definition digit :: "int \<Rightarrow> bool" where
  \<comment> \<open>\<open>\d\<close> of a \<open>str\<close> pattern compiled without \<open>re.ASCII\<close>: any Unicode decimal digit\<close>
  "digit ch = (\<exists>z \<in> set decimal_zeros. z \<le> ch \<and> ch < z + 10)"

section \<open>custom\_types.py\<close>

definition make_whole_number :: "rat \<Rightarrow> int" where
  \<comment> \<open>\<open>int(value)\<close> drops the fractional part, towards zero\<close>
  "make_whole_number v = (if 0 \<le> v then \<lfloor>v\<rfloor> else \<lceil>v\<rceil>)"

definition SSN_display :: "str \<Rightarrow> str" where
  \<comment> \<open>\<open>SSN._display\<close>; the argument is the secret value held by the object\<close>
  "SSN_display secret_value = literal ''***-**-****''"

section \<open>models/data\_models.py\<close>

datatype StateOfResidenceEnum = CONTIGUOUS_48_AND_DC | ALASKA | HAWAII

record PovertyLineTable =
  table_state_of_residence :: StateOfResidenceEnum
  table_values :: "(int \<times> int) list"
  additional_person_extra :: int

definition PovertyLineTable_get_poverty_rate :: "PovertyLineTable \<Rightarrow> int \<Rightarrow> error + int" where
  "PovertyLineTable_get_poverty_rate t tax_family_size =
     (case map_of (table_values t) tax_family_size of
        Some v \<Rightarrow> Inr v
      | None \<Rightarrow>
         (case py_max (map fst (table_values t)) of
            Inl e \<Rightarrow> Inl e
          | Inr largest_size \<Rightarrow>
             (case getitem (table_values t) largest_size of
                Inl e \<Rightarrow> Inl e
              | Inr largest_value \<Rightarrow>
                 (let additional_persons = tax_family_size - largest_size;
                      adder = additional_persons * additional_person_extra t
                  in Inr (largest_value + adder)))))"

definition get_state_table ::
  "PovertyLineTable list \<Rightarrow> StateOfResidenceEnum \<Rightarrow> error + PovertyLineTable" where
  "get_state_table root_list s =
     (let filtered_list = filter (\<lambda>t. table_state_of_residence t = s) root_list;
          results = length filtered_list
      in if results > 1 then Inl ValueError
         else if results = 0 then Inl ValueError
         else Inr (hd filtered_list))"

definition PovertyLines_get_poverty_rate ::
  "PovertyLineTable list \<Rightarrow> StateOfResidenceEnum \<Rightarrow> int \<Rightarrow> error + int" where
  "PovertyLines_get_poverty_rate root_list s tax_family_size =
     (case get_state_table root_list s of
        Inl e \<Rightarrow> Inl e
      | Inr t \<Rightarrow> PovertyLineTable_get_poverty_rate t tax_family_size)"

definition CONTIGUOUS_48_AND_DC_dict :: "(int \<times> int) list" where
  "CONTIGUOUS_48_AND_DC_dict =
     [(1, 13590), (2, 18310), (3, 23030), (4, 27750),
      (5, 32470), (6, 37190), (7, 41910), (8, 46630)]"

definition CONTIGUOUS_48_AND_DC_EXTRA :: int where
  "CONTIGUOUS_48_AND_DC_EXTRA = 4720"

definition ALASKA_dict :: "(int \<times> int) list" where
  "ALASKA_dict =
     [(1, 16990), (2, 22890), (3, 28790), (4, 34690),
      (5, 40590), (6, 46490), (7, 52390), (8, 58290)]"

definition ALASKA_EXTRA :: int where
  "ALASKA_EXTRA = 5900"

definition HAWAII_dict :: "(int \<times> int) list" where
  "HAWAII_dict =
     [(1, 15630), (2, 21060), (3, 26490), (4, 31920),
      (5, 37350), (6, 42780), (7, 48210), (8, 53640)]"

definition HAWAII_EXTRA :: int where
  "HAWAII_EXTRA = 5430"

definition poverty_lines :: "PovertyLineTable list" where
  "poverty_lines =
     [\<lparr>table_state_of_residence = CONTIGUOUS_48_AND_DC,
       table_values = CONTIGUOUS_48_AND_DC_dict,
       additional_person_extra = CONTIGUOUS_48_AND_DC_EXTRA\<rparr>,
      \<lparr>table_state_of_residence = ALASKA,
       table_values = ALASKA_dict,
       additional_person_extra = ALASKA_EXTRA\<rparr>,
      \<lparr>table_state_of_residence = HAWAII,
       table_values = HAWAII_dict,
       additional_person_extra = HAWAII_EXTRA\<rparr>]"

definition applicable_figures_dict :: "(int \<times> rat) list" where
  "applicable_figures_dict =
    [
     (150, float4 0), (151, float4 4), (152, float4 8), (153, float4 12), (154, float4 16),
     (155, float4 20), (156, float4 24), (157, float4 28), (158, float4 32), (159, float4 36),
     (160, float4 40), (161, float4 44), (162, float4 48), (163, float4 52), (164, float4 56),
     (165, float4 60), (166, float4 64), (167, float4 68), (168, float4 72), (169, float4 76),
     (170, float4 80), (171, float4 84), (172, float4 88), (173, float4 92), (174, float4 96),
     (175, float4 100), (176, float4 104), (177, float4 108), (178, float4 112), (179, float4 116),
     (180, float4 120), (181, float4 124), (182, float4 128), (183, float4 132), (184, float4 136),
     (185, float4 140), (186, float4 144), (187, float4 148), (188, float4 152), (189, float4 156),
     (190, float4 160), (191, float4 164), (192, float4 168), (193, float4 172), (194, float4 176),
     (195, float4 180), (196, float4 184), (197, float4 188), (198, float4 192), (199, float4 196),
     (200, float4 200), (201, float4 204), (202, float4 208), (203, float4 212), (204, float4 216),
     (205, float4 220), (206, float4 224), (207, float4 228), (208, float4 232), (209, float4 236),
     (210, float4 240), (211, float4 244), (212, float4 248), (213, float4 252), (214, float4 256),
     (215, float4 260), (216, float4 264), (217, float4 268), (218, float4 272), (219, float4 276),
     (220, float4 280), (221, float4 284), (222, float4 288), (223, float4 292), (224, float4 296),
     (225, float4 300), (226, float4 304), (227, float4 308), (228, float4 312), (229, float4 316),
     (230, float4 320), (231, float4 324), (232, float4 328), (233, float4 332), (234, float4 336),
     (235, float4 340), (236, float4 344), (237, float4 348), (238, float4 352), (239, float4 356),
     (240, float4 360), (241, float4 364), (242, float4 368), (243, float4 372), (244, float4 376),
     (245, float4 380), (246, float4 384), (247, float4 388), (248, float4 392), (249, float4 396),
     (250, float4 400), (251, float4 404), (252, float4 408), (253, float4 412), (254, float4 416),
     (255, float4 420), (256, float4 424), (257, float4 428), (258, float4 432), (259, float4 436),
     (260, float4 440), (261, float4 444), (262, float4 448), (263, float4 452), (264, float4 456),
     (265, float4 460), (266, float4 464), (267, float4 468), (268, float4 472), (269, float4 476),
     (270, float4 480), (271, float4 484), (272, float4 488), (273, float4 492), (274, float4 496),
     (275, float4 500), (276, float4 504), (277, float4 508), (278, float4 512), (279, float4 516),
     (280, float4 520), (281, float4 524), (282, float4 528), (283, float4 532), (284, float4 536),
     (285, float4 540), (286, float4 544), (287, float4 548), (288, float4 552), (289, float4 556),
     (290, float4 560), (291, float4 564), (292, float4 568), (293, float4 572), (294, float4 576),
     (295, float4 580), (296, float4 584), (297, float4 588), (298, float4 592), (299, float4 596),
     (300, float4 600), (301, float4 603), (302, float4 605), (303, float4 608), (304, float4 610),
     (305, float4 613), (306, float4 615), (307, float4 618), (308, float4 620), (309, float4 623),
     (310, float4 625), (311, float4 628), (312, float4 630), (313, float4 633), (314, float4 635),
     (315, float4 638), (316, float4 640), (317, float4 643), (318, float4 645), (319, float4 648),
     (320, float4 650), (321, float4 653), (322, float4 655), (323, float4 658), (324, float4 660),
     (325, float4 663), (326, float4 665), (327, float4 668), (328, float4 670), (329, float4 673),
     (330, float4 675), (331, float4 678), (332, float4 680), (333, float4 683), (334, float4 685),
     (335, float4 688), (336, float4 690), (337, float4 693), (338, float4 695), (339, float4 698),
     (340, float4 700), (341, float4 703), (342, float4 705), (343, float4 708), (344, float4 710),
     (345, float4 713), (346, float4 715), (347, float4 718), (348, float4 720), (349, float4 723),
     (350, float4 725), (351, float4 728), (352, float4 730), (353, float4 733), (354, float4 735),
     (355, float4 738), (356, float4 740), (357, float4 743), (358, float4 745), (359, float4 748),
     (360, float4 750), (361, float4 753), (362, float4 755), (363, float4 758), (364, float4 760),
     (365, float4 763), (366, float4 765), (367, float4 768), (368, float4 770), (369, float4 773),
     (370, float4 775), (371, float4 778), (372, float4 780), (373, float4 783), (374, float4 785),
     (375, float4 788), (376, float4 790), (377, float4 793), (378, float4 795), (379, float4 798),
     (380, float4 800), (381, float4 803), (382, float4 805), (383, float4 808), (384, float4 810),
     (385, float4 813), (386, float4 815), (387, float4 818), (388, float4 820), (389, float4 823),
     (390, float4 825), (391, float4 828), (392, float4 830), (393, float4 833), (394, float4 835),
     (395, float4 838), (396, float4 840), (397, float4 843), (398, float4 845), (399, float4 848),
     (400, float4 850)
    ]"

definition get_figure :: "(int \<times> rat) list \<Rightarrow> int \<Rightarrow> error + rat" where
  "get_figure figures percent =
     (case py_min (map fst figures) of
        Inl e \<Rightarrow> Inl e
      | Inr min_percent \<Rightarrow>
         (case py_max (map fst figures) of
            Inl e \<Rightarrow> Inl e
          | Inr max_percent \<Rightarrow>
             if percent \<le> min_percent then getitem figures min_percent
             else if percent > max_percent then getitem figures max_percent
             else getitem figures percent))"

definition applicable_figures :: "(int \<times> rat) list" where
  "applicable_figures = applicable_figures_dict"

section \<open>models/year2022.py\<close>

subsection \<open>Monthly calculation rows and table\<close>

text \<open>
  The columns \<open>a\<close>, \<open>b\<close>, \<open>c\<close> and \<open>f\<close> of a row are the fields \<open>col_a\<close>, \<open>col_b\<close>,
  \<open>col_c\<close> and \<open>col_f\<close>.
\<close>

record MonthlyCalculationRow =
  col_a :: int
  col_b :: int
  col_c :: int
  col_f :: int

definition MonthlyCalculationRow_init :: "rat \<Rightarrow> rat \<Rightarrow> rat \<Rightarrow> rat \<Rightarrow> MonthlyCalculationRow" where
  \<comment> \<open>every \<open>WholeDollar\<close> field passes through \<open>make_whole_number\<close> before it is stored\<close>
  "MonthlyCalculationRow_init a b c f =
     \<lparr>col_a = make_whole_number a, col_b = make_whole_number b,
      col_c = make_whole_number c, col_f = make_whole_number f\<rparr>"

definition monthly_max_premium_assist :: "MonthlyCalculationRow \<Rightarrow> int" where
  "monthly_max_premium_assist r =
     (let assistance = col_b r - col_c r in if assistance > 0 then assistance else 0)"

definition monthly_allowed_tax_credit :: "MonthlyCalculationRow \<Rightarrow> int" where
  "monthly_allowed_tax_credit r = min (col_a r) (monthly_max_premium_assist r)"

text \<open>
  The twelve fields of the table are named by the constructors of \<open>month\<close>.
  \<open>model_fields_set\<close> is pydantic's record of the fields that were passed explicitly to
  the constructor or assigned later, whatever the value; a Python set has no defined
  iteration order, so the list stands for the order in which one run visits it.
\<close>

datatype month =
    January | February | March | April | May | June
  | July | August | September | October | November | December

record MonthlyCalculationTable =
  january :: "MonthlyCalculationRow option"
  february :: "MonthlyCalculationRow option"
  march :: "MonthlyCalculationRow option"
  april :: "MonthlyCalculationRow option"
  may :: "MonthlyCalculationRow option"
  june :: "MonthlyCalculationRow option"
  july :: "MonthlyCalculationRow option"
  august :: "MonthlyCalculationRow option"
  september :: "MonthlyCalculationRow option"
  october :: "MonthlyCalculationRow option"
  november :: "MonthlyCalculationRow option"
  december :: "MonthlyCalculationRow option"
  model_fields_set :: "month list"

definition model_fields :: "month list" where
  "model_fields =
     [January, February, March, April, May, June,
      July, August, September, October, November, December]"

fun getattr :: "MonthlyCalculationTable \<Rightarrow> month \<Rightarrow> MonthlyCalculationRow option" where
  "getattr t January = january t"
| "getattr t February = february t"
| "getattr t March = march t"
| "getattr t April = april t"
| "getattr t May = may t"
| "getattr t June = june t"
| "getattr t July = july t"
| "getattr t August = august t"
| "getattr t September = september t"
| "getattr t October = october t"
| "getattr t November = november t"
| "getattr t December = december t"

fun set_slot ::
  "MonthlyCalculationTable \<Rightarrow> month \<Rightarrow> MonthlyCalculationRow option \<Rightarrow> MonthlyCalculationTable" where
  "set_slot t January v = t\<lparr>january := v\<rparr>"
| "set_slot t February v = t\<lparr>february := v\<rparr>"
| "set_slot t March v = t\<lparr>march := v\<rparr>"
| "set_slot t April v = t\<lparr>april := v\<rparr>"
| "set_slot t May v = t\<lparr>may := v\<rparr>"
| "set_slot t June v = t\<lparr>june := v\<rparr>"
| "set_slot t July v = t\<lparr>july := v\<rparr>"
| "set_slot t August v = t\<lparr>august := v\<rparr>"
| "set_slot t September v = t\<lparr>september := v\<rparr>"
| "set_slot t October v = t\<lparr>october := v\<rparr>"
| "set_slot t November v = t\<lparr>november := v\<rparr>"
| "set_slot t December v = t\<lparr>december := v\<rparr>"

definition setattr ::
  "MonthlyCalculationTable \<Rightarrow> month \<Rightarrow> MonthlyCalculationRow option \<Rightarrow> MonthlyCalculationTable" where
  "setattr t m v =
     (set_slot t m v)\<lparr>model_fields_set :=
        (if m \<in> set (model_fields_set t) then model_fields_set t
         else model_fields_set t @ [m])\<rparr>"

definition MonthlyCalculationTable_default :: MonthlyCalculationTable where
  "MonthlyCalculationTable_default =
     \<lparr>january = None,
      february = None,
      march = None,
      april = None,
      may = None,
      june = None,
      july = None,
      august = None,
      september = None,
      october = None,
      november = None,
      december = None,
      model_fields_set = []\<rparr>"

definition MonthlyCalculationTable_init ::
  "(month \<times> MonthlyCalculationRow option) list \<Rightarrow> MonthlyCalculationTable" where
  \<comment> \<open>the keyword arguments of the constructor, each a field name with its value\<close>
  "MonthlyCalculationTable_init kwargs =
     fold (\<lambda>(m, v) t. setattr t m v) kwargs MonthlyCalculationTable_default"

fun credit_loop :: "MonthlyCalculationTable \<Rightarrow> month list \<Rightarrow> int \<Rightarrow> int" where
  "credit_loop t [] credit_sum = credit_sum"
| "credit_loop t (field # rest) credit_sum =
     (case getattr t field of
        None \<Rightarrow> credit_loop t rest credit_sum
      | Some field_value \<Rightarrow>
          credit_loop t rest (credit_sum + monthly_allowed_tax_credit field_value))"

definition MonthlyCalculationTable_total_tax_credit :: "MonthlyCalculationTable \<Rightarrow> int" where
  "MonthlyCalculationTable_total_tax_credit t = credit_loop t model_fields 0"

fun advance_loop :: "MonthlyCalculationTable \<Rightarrow> month list \<Rightarrow> int \<Rightarrow> error + int" where
  "advance_loop t [] advance_sum = Inr advance_sum"
| "advance_loop t (field # rest) advance_sum =
     (case getattr t field of
        None \<Rightarrow> Inl AttributeError
      | Some field_value \<Rightarrow> advance_loop t rest (advance_sum + col_f field_value))"

definition MonthlyCalculationTable_total_advance_payment ::
  "MonthlyCalculationTable \<Rightarrow> error + int" where
  "MonthlyCalculationTable_total_advance_payment t = advance_loop t (model_fields_set t) 0"

subsection \<open>Form 8962\<close>

record Form8962 =
  name_on_return :: str
  ssn :: str
  tax_family_size :: int
  modified_agi :: int
  dependents_modified_agi :: "int option"
  state_of_residence :: StateOfResidenceEnum
  another_taxpayer_or_alternative_calculation :: bool
  line_10 :: bool
  annual_enrollment_premiums :: "int option"
  annual_slcsp_premium :: "int option"
  annual_advance_payment :: "int option"
  monthly_calculation :: "MonthlyCalculationTable option"

text \<open>
  The arguments of the constructor, before validation: dollar amounts may carry a
  fraction, which the \<open>WholeDollar\<close> validator drops.
\<close>

record Form8962_kwargs =
  kw_name_on_return :: str
  kw_ssn :: str
  kw_tax_family_size :: int
  kw_modified_agi :: rat
  kw_dependents_modified_agi :: "rat option"
  kw_state_of_residence :: StateOfResidenceEnum
  kw_another_taxpayer_or_alternative_calculation :: bool
  kw_line_10 :: bool
  kw_annual_enrollment_premiums :: "rat option"
  kw_annual_slcsp_premium :: "rat option"
  kw_annual_advance_payment :: "rat option"
  kw_monthly_calculation :: "MonthlyCalculationTable option"

definition fullmatch_ssn :: "str \<Rightarrow> bool" where
  \<comment> \<open>\<open>\d{3}-\d{2}-\d{4}\<close> or \<open>\d{9}\<close> over the whole string\<close>
  "fullmatch_ssn s =
     ((length s = 11 \<and> list_all digit (take 3 s) \<and> s ! 3 = of_char (CHR ''-'') \<and>
       list_all digit (take 2 (drop 4 s)) \<and> s ! 6 = of_char (CHR ''-'') \<and>
       list_all digit (drop 7 s))
      \<or> (length s = 9 \<and> list_all digit s))"

definition ssn_pattern :: "str \<Rightarrow> bool" where
  \<comment> \<open>\<open>re.match\<close> of the pattern: \<open>$\<close> also matches before a final newline\<close>
  "ssn_pattern s =
     (fullmatch_ssn s \<or> (s \<noteq> [] \<and> last s = 10 \<and> fullmatch_ssn (butlast s)))"

definition validate_ssn_pattern :: "str \<Rightarrow> error + str" where
  "validate_ssn_pattern v = (if \<not> ssn_pattern v then Inl ValidationError else Inr v)"

definition Form8962_init :: "Form8962_kwargs \<Rightarrow> error + Form8962" where
  "Form8962_init kw =
     (case validate_ssn_pattern (kw_ssn kw) of
        Inl e \<Rightarrow> Inl e
      | Inr s \<Rightarrow>
          Inr \<lparr>name_on_return = kw_name_on_return kw,
               ssn = s,
               tax_family_size = kw_tax_family_size kw,
               modified_agi = make_whole_number (kw_modified_agi kw),
               dependents_modified_agi =
                 map_option make_whole_number (kw_dependents_modified_agi kw),
               state_of_residence = kw_state_of_residence kw,
               another_taxpayer_or_alternative_calculation =
                 kw_another_taxpayer_or_alternative_calculation kw,
               line_10 = kw_line_10 kw,
               annual_enrollment_premiums =
                 map_option make_whole_number (kw_annual_enrollment_premiums kw),
               annual_slcsp_premium =
                 map_option make_whole_number (kw_annual_slcsp_premium kw),
               annual_advance_payment =
                 map_option make_whole_number (kw_annual_advance_payment kw),
               monthly_calculation = kw_monthly_calculation kw\<rparr>)"

definition household_income :: "Form8962 \<Rightarrow> int" where
  "household_income form =
     (let income = modified_agi form
      in case dependents_modified_agi form of
           None \<Rightarrow> income
         | Some d \<Rightarrow> income + d)"

definition poverty_line :: "Form8962 \<Rightarrow> error + int" where
  "poverty_line form =
     PovertyLines_get_poverty_rate poverty_lines (state_of_residence form)
       (tax_family_size form)"

definition percent_of_poverty_line :: "Form8962 \<Rightarrow> error + int" where
  "percent_of_poverty_line form =
     (case poverty_line form of
        Inl e \<Rightarrow> Inl e
      | Inr pl \<Rightarrow>
         (case fdiv (of_int (household_income form)) (of_int pl) of
            Inl e \<Rightarrow> Inl e
          | Inr percentage \<Rightarrow>
              Inr (if percentage \<le> 4 then make_whole_number (fmul percentage 100)
                   else 401)))"

definition applicable_figure :: "Form8962 \<Rightarrow> error + rat" where
  "applicable_figure form =
     (case percent_of_poverty_line form of
        Inl e \<Rightarrow> Inl e
      | Inr percent \<Rightarrow> get_figure applicable_figures percent)"

definition annual_contribution :: "Form8962 \<Rightarrow> error + int" where
  "annual_contribution form =
     (case applicable_figure form of
        Inl e \<Rightarrow> Inl e
      | Inr figure \<Rightarrow> Inr (py_round (fmul (of_int (household_income form)) figure)))"

definition monthly_contribution :: "Form8962 \<Rightarrow> error + int" where
  "monthly_contribution form =
     (case annual_contribution form of
        Inl e \<Rightarrow> Inl e
      | Inr annual \<Rightarrow>
         (case fdiv (of_int annual) 12 of
            Inl e \<Rightarrow> Inl e
          | Inr monthly \<Rightarrow> Inr (py_round monthly)))"

definition line_11_c :: "Form8962 \<Rightarrow> error + int option" where
  "line_11_c form =
     (if line_10 form
      then (case annual_contribution form of Inl e \<Rightarrow> Inl e | Inr annual \<Rightarrow> Inr (Some annual))
      else Inr None)"

definition annual_max_premium_assist :: "Form8962 \<Rightarrow> error + int option" where
  "annual_max_premium_assist form =
     (if line_10 form then
        (case line_11_c form of
           Inl e \<Rightarrow> Inl e
         | Inr None \<Rightarrow> Inl AssertionError
         | Inr (Some contribution) \<Rightarrow>
            (case annual_slcsp_premium form of
               None \<Rightarrow> Inl AssertionError
             | Some slcsp \<Rightarrow>
                 (let assistance = contribution - slcsp
                  in Inr (Some (if assistance > 0 then assistance else 0)))))
      else Inr None)"

definition annual_allowed_tax_credit :: "Form8962 \<Rightarrow> error + int option" where
  "annual_allowed_tax_credit form =
     (if line_10 form then
        (case annual_enrollment_premiums form of
           None \<Rightarrow> Inl AssertionError
         | Some premiums \<Rightarrow>
            (case annual_max_premium_assist form of
               Inl e \<Rightarrow> Inl e
             | Inr None \<Rightarrow> Inl AssertionError
             | Inr (Some assist) \<Rightarrow> Inr (Some (min premiums assist))))
      else Inr None)"

definition total_tax_credit :: "Form8962 \<Rightarrow> error + int" where
  "total_tax_credit form =
     (case annual_allowed_tax_credit form of
        Inl e \<Rightarrow> Inl e
      | Inr None \<Rightarrow>
         (case monthly_calculation form of
            None \<Rightarrow> Inl AssertionError
          | Some table \<Rightarrow> Inr (MonthlyCalculationTable_total_tax_credit table))
      | Inr (Some credit) \<Rightarrow> Inr credit)"

definition total_advance_payment :: "Form8962 \<Rightarrow> error + int" where
  "total_advance_payment form =
     (case annual_advance_payment form of
        None \<Rightarrow>
         (case monthly_calculation form of
            None \<Rightarrow> Inl AssertionError
          | Some table \<Rightarrow> MonthlyCalculationTable_total_advance_payment table)
      | Some payment \<Rightarrow> Inr payment)"

definition net_tax_credit :: "Form8962 \<Rightarrow> error + int option" where
  "net_tax_credit form =
     (case total_tax_credit form of
        Inl e \<Rightarrow> Inl e
      | Inr credit \<Rightarrow>
         (case total_advance_payment form of
            Inl e \<Rightarrow> Inl e
          | Inr payment \<Rightarrow>
              if credit > payment then Inr (Some (credit - payment))
              else if credit = payment then Inr (Some 0)
              else Inr None))"

definition state_table :: "StateOfResidenceEnum \<Rightarrow> PovertyLineTable" where
  \<comment> \<open>the table that \<open>get_state_table\<close> selects from \<open>poverty_lines\<close>\<close>
  "state_table s = hd (filter (\<lambda>t. table_state_of_residence t = s) poverty_lines)"


subsection \<open>The form built by the module's demonstration script\<close>

definition my_form_kwargs :: Form8962_kwargs where
  "my_form_kwargs =
     \<lparr>kw_name_on_return = literal ''Karl Wooster'',
      kw_ssn = literal ''123-45-6789'',
      kw_tax_family_size = 4,
      kw_modified_agi = 77194,
      kw_dependents_modified_agi = None,
      kw_state_of_residence = CONTIGUOUS_48_AND_DC,
      kw_another_taxpayer_or_alternative_calculation = False,
      kw_line_10 = False,
      kw_annual_enrollment_premiums = None,
      kw_annual_slcsp_premium = None,
      kw_annual_advance_payment = None,
      kw_monthly_calculation = None\<rparr>"

definition my_form :: Form8962 where
  "my_form =
     \<lparr>name_on_return = literal ''Karl Wooster'',
      ssn = literal ''123-45-6789'',
      tax_family_size = 4,
      modified_agi = 77194,
      dependents_modified_agi = None,
      state_of_residence = CONTIGUOUS_48_AND_DC,
      another_taxpayer_or_alternative_calculation = False,
      line_10 = False,
      annual_enrollment_premiums = None,
      annual_slcsp_premium = None,
      annual_advance_payment = None,
      monthly_calculation = None\<rparr>"

section \<open>Properties of the rounding function\<close>

text \<open>
  \<open>round_half_even\<close> returns a nearest integer and, at a tie, the even one. \<open>ilog2\<close> is the
  binary exponent of its argument, so \<open>fl\<close> returns a number with a significand of at
  most 53 bits that is within half a unit in the last place of its argument; integers
  below \<open>2 ^ 53\<close> in magnitude are returned unchanged, which is why whole-dollar doubles
  are kept as integers.
\<close>

lemma round_half_even_nearest:
  "\<bar>of_int (round_half_even x) - x\<bar> \<le> 1 / 2 \<and>
   (\<bar>of_int (round_half_even x) - x\<bar> = 1 / 2 \<longrightarrow> even (round_half_even x))"
proof -
  define n where "n = \<lfloor>x\<rfloor>"
  define d where "d = x - of_int n"
  have d: "0 \<le> d" "d < 1"
    unfolding d_def n_def by linarith+
  have r: "round_half_even x =
             (if d < 1 / 2 then n else if 1 / 2 < d then n + 1 else if even n then n else n + 1)"
    unfolding round_half_even_def Let_def n_def d_def ..
  consider "d < 1 / 2" | "1 / 2 < d" | "d = 1 / 2" by linarith
  then show ?thesis
  proof cases
    case 1
    then have "round_half_even x = n" by (simp add: r)
    moreover have "\<bar>of_int n - x\<bar> = d" using d by (simp add: d_def)
    ultimately show ?thesis using 1 by simp
  next
    case 2
    then have "round_half_even x = n + 1" by (simp add: r)
    moreover have "\<bar>of_int (n + 1) - x\<bar> = 1 - d" using d by (simp add: d_def)
    ultimately show ?thesis using 2 by simp
  next
    case 3
    show ?thesis
    proof (cases "even n")
      case True
      then have "round_half_even x = n" using 3 by (simp add: r)
      moreover have "\<bar>of_int n - x\<bar> = d" using d by (simp add: d_def)
      ultimately show ?thesis using 3 True by simp
    next
      case False
      then have "round_half_even x = n + 1" using 3 by (simp add: r)
      moreover have "\<bar>of_int (n + 1) - x\<bar> = 1 - d" using d by (simp add: d_def)
      ultimately show ?thesis using 3 False by simp
    qed
  qed
qed

lemma bit_length_pos: "0 < n \<Longrightarrow> 1 \<le> bit_length n"
proof (induction n rule: bit_length.induct)
  case (1 n)
  show ?case
  proof (cases "0 < n div 2")
    case True
    with 1 have "1 \<le> bit_length (n div 2)" by simp
    with 1 show ?thesis by (subst bit_length.simps) simp
  next
    case False
    then have "bit_length (n div 2) = 0" by (subst bit_length.simps) simp
    with 1 show ?thesis by (subst bit_length.simps) simp
  qed
qed

lemma bit_length_bounds:
  "0 < n \<Longrightarrow> 2 ^ nat (bit_length n - 1) \<le> n \<and> n < 2 ^ nat (bit_length n)"
proof (induction n rule: bit_length.induct)
  case (1 n)
  have bl: "bit_length n = 1 + bit_length (n div 2)"
    using 1(2) by (subst bit_length.simps) simp
  show ?case
  proof (cases "0 < n div 2")
    case False
    with 1(2) have n1: "n = 1" by linarith
    have "bit_length (n div 2) = 0" using False by (subst bit_length.simps) simp
    with bl n1 show ?thesis by simp
  next
    case True
    let ?m = "n div 2"
    let ?b = "bit_length ?m"
    from 1 True have ih: "2 ^ nat (?b - 1) \<le> ?m" "?m < 2 ^ nat ?b" by simp_all
    have b1: "1 \<le> ?b" using True by (rule bit_length_pos)
    then have e: "nat ?b = Suc (nat (?b - 1))" by simp
    have "2 * ?m \<le> n" "n \<le> 2 * ?m + 1" by linarith+
    moreover have "?m + 1 \<le> 2 ^ nat ?b" using ih(2) by simp
    moreover have "(2::int) ^ nat ?b = 2 * 2 ^ nat (?b - 1)" by (subst e) simp
    moreover have "(2::int) ^ nat (1 + ?b) = 2 * 2 ^ nat ?b"
      using b1 by (simp add: nat_add_distrib)
    ultimately show ?thesis
      using ih(1) by (simp add: bl)
  qed
qed

lemma bit_length_powi:
  assumes "0 < n"
  shows "(2::rat) powi (bit_length n - 1) \<le> of_int n" and "of_int n < (2::rat) powi (bit_length n)"
proof -
  from assms have b: "1 \<le> bit_length n" by (rule bit_length_pos)
  from bit_length_bounds [OF assms]
  have "2 ^ nat (bit_length n - 1) \<le> n" "n < 2 ^ nat (bit_length n)" by simp_all
  then have "(of_int (2 ^ nat (bit_length n - 1)) :: rat) \<le> of_int n"
    "(of_int n :: rat) < of_int (2 ^ nat (bit_length n))"
    by (simp_all only: of_int_le_iff of_int_less_iff)
  then show "(2::rat) powi (bit_length n - 1) \<le> of_int n"
    and "of_int n < (2::rat) powi (bit_length n)"
    using b by (simp_all add: power_int_def)
qed


lemma ilog2_bounds:
  assumes "x \<noteq> 0"
  shows "2 powi (ilog2 x) \<le> \<bar>x\<bar>" and "\<bar>x\<bar> < 2 powi (ilog2 x + 1)"
proof -
  obtain p q where pq: "quotient_of \<bar>x\<bar> = (p, q)" by (cases "quotient_of \<bar>x\<bar>")
  then have q: "0 < q" by (rule quotient_of_denom_pos)
  have x: "\<bar>x\<bar> = of_int p / of_int q" using pq by (rule quotient_of_div)
  have "0 < \<bar>x\<bar>" using assms by simp
  with x q have p: "0 < p" by (simp add: zero_less_divide_iff)
  define d where "d = bit_length p - bit_length q"
  have e: "ilog2 x = (if 2 powi d \<le> \<bar>x\<bar> then d else d - 1)"
    by (simp add: ilog2_def pq d_def)
  have qr: "(0::rat) < of_int q" using q by simp
  have up: "\<bar>x\<bar> < 2 powi (d + 1)"
  proof -
    have "of_int p / of_int q < (2::rat) powi (bit_length p) / of_int q"
      using bit_length_powi(2) [OF p] qr by (intro divide_strict_right_mono) simp_all
    also have "\<dots> \<le> 2 powi (bit_length p) / 2 powi (bit_length q - 1)"
      using bit_length_powi(1) [OF q] qr by (intro divide_left_mono) simp_all
    also have "\<dots> = 2 powi (d + 1)"
      by (simp add: d_def power_int_diff [symmetric] algebra_simps)
    finally show ?thesis by (simp add: x)
  qed
  have lo: "2 powi (d - 1) < \<bar>x\<bar>"
  proof -
    have "(2::rat) powi (d - 1) = 2 powi (bit_length p - 1) / 2 powi (bit_length q)"
      by (simp add: d_def power_int_diff [symmetric] algebra_simps)
    also have "\<dots> < 2 powi (bit_length p - 1) / of_int q"
      using bit_length_powi(2) [OF q] qr by (intro divide_strict_left_mono) simp_all
    also have "\<dots> \<le> of_int p / of_int q"
      using bit_length_powi(1) [OF p] qr by (intro divide_right_mono) simp_all
    finally show ?thesis by (simp add: x)
  qed
  show "2 powi (ilog2 x) \<le> \<bar>x\<bar>"
    using lo by (simp add: e)
  show "\<bar>x\<bar> < 2 powi (ilog2 x + 1)"
    using up by (auto simp add: e)
qed




lemma round_half_even_of_int: "round_half_even (of_int j) = j"
  by (simp add: round_half_even_def)

lemma fl_of_int:
  assumes "\<bar>n\<bar> < 2 ^ 53"
  shows "fl (of_int n) = of_int n"
proof (cases "n = 0")
  case True
  then show ?thesis by (simp add: fl_def)
next
  case False
  define x :: rat where "x = of_int n"
  define k where "k = ilog2 x"
  have x0: "x \<noteq> 0" using False by (simp add: x_def)
  have ax: "\<bar>x\<bar> = of_int \<bar>n\<bar>" by (simp add: x_def)
  have lo: "2 powi k \<le> \<bar>x\<bar>" and hi: "\<bar>x\<bar> < 2 powi (k + 1)"
    unfolding k_def using ilog2_bounds [OF x0] by simp_all
  have "(of_int \<bar>n\<bar> :: rat) < of_int (2 ^ 53)"
    using assms by (simp only: of_int_less_iff)
  then have "\<bar>x\<bar> < 2 powi 53" by (simp add: ax)
  with lo have "(2::rat) powi k < 2 powi 53" by linarith
  then have "k < 53" by (rule power_int_le_imp_less_exp [rotated]) simp_all
  then have k52: "k \<le> 52" by simp
  define j where "j = n * 2 ^ nat (52 - k)"
  have u: "(2::rat) powi (k - 52) = 1 / 2 ^ nat (52 - k)"
    using k52 by (simp add: power_int_def field_simps)
  have "x / 2 powi (k - 52) = of_int j"
    by (simp add: u j_def x_def)
  then have "fl x = of_int j * 2 powi (k - 52)"
    using x0 by (simp add: fl_def Let_def k_def [symmetric] round_half_even_of_int)
  also have "\<dots> = x"
    by (simp add: u j_def x_def)
  finally show ?thesis by (simp add: x_def)
qed









section \<open>The applicable-figure table\<close>

lemma figures_keys: "map fst applicable_figures_dict = [150..400]"
  by (simp add: applicable_figures_dict_def)

lemma figures_min: "py_min (map fst applicable_figures_dict) = Inr 150"
  by (simp add: applicable_figures_dict_def)

lemma figures_max: "py_max (map fst applicable_figures_dict) = Inr 400"
  by (simp add: applicable_figures_dict_def)

lemma float4_0: "float4 0 = 0"
  by (simp add: float4_def fl_def)

lemma figures_150: "map_of applicable_figures_dict 150 = Some (float4 0)"
  by (simp add: applicable_figures_dict_def)

lemma figures_400: "map_of applicable_figures_dict 400 = Some (float4 850)"
  by (simp add: applicable_figures_dict_def)

lemma figures_278: "map_of applicable_figures_dict 278 = Some (float4 512)"
  by (simp add: applicable_figures_dict_def)

lemma figures_dom:
  assumes "150 \<le> p" "p \<le> 400"
  shows "\<exists>v. map_of applicable_figures_dict p = Some v"
proof -
  from assms have "p \<in> set (map fst applicable_figures_dict)"
    by (simp only: figures_keys set_upto atLeastAtMost_iff)
  then have "p \<in> fst ` set applicable_figures_dict"
    by simp
  then have "map_of applicable_figures_dict p \<noteq> None"
    by (simp add: map_of_eq_None_iff)
  then show ?thesis by blast
qed

lemma get_figure_low: "percent \<le> 150 \<Longrightarrow> get_figure applicable_figures percent = Inr 0"
  by (simp add: get_figure_def applicable_figures_def figures_min figures_max
      getitem_def figures_150 float4_0)

lemma get_figure_high:
  "400 < percent \<Longrightarrow> get_figure applicable_figures percent = Inr (float4 850)"
  by (simp add: get_figure_def applicable_figures_def figures_min figures_max
      getitem_def figures_400)

lemma get_figure_inside:
  "150 < percent \<Longrightarrow> percent \<le> 400 \<Longrightarrow> map_of applicable_figures_dict percent = Some v \<Longrightarrow>
   get_figure applicable_figures percent = Inr v"
  by (simp add: get_figure_def applicable_figures_def figures_min figures_max getitem_def)

lemma get_figure_total: "\<exists>v. get_figure applicable_figures percent = Inr v"
proof -
  consider "percent \<le> 150" | "400 < percent" | "150 < percent \<and> percent \<le> 400"
    by arith
  then show ?thesis
  proof cases
    case 1 then show ?thesis by (simp add: get_figure_low)
  next
    case 2 then show ?thesis by (simp add: get_figure_high)
  next
    case 3
    then obtain v where "map_of applicable_figures_dict percent = Some v"
      using figures_dom [of percent] by auto
    with 3 show ?thesis by (simp add: get_figure_inside)
  qed
qed

text \<open>
  Claim C9. \<open>get_figure\<close> clamps its argument to the keys of the table. Every percent at
  or below the smallest key 150 gets the figure stored at 150, which is \<open>0.0000\<close>; every
  percent above the largest key 400, the sentinel 401 included, gets the figure stored at
  400, which is \<open>0.0850\<close>; every percent in between has an entry of its own in the table
  and gets exactly that entry.
\<close>

theorem get_figure_clamps:
  "(percent \<le> 150 \<longrightarrow> get_figure applicable_figures percent = Inr 0) \<and>
   (400 < percent \<longrightarrow> get_figure applicable_figures percent = Inr (float4 850)) \<and>
   (150 < percent \<and> percent \<le> 400 \<longrightarrow>
      (\<exists>v. map_of applicable_figures_dict percent = Some v \<and>
           get_figure applicable_figures percent = Inr v))"
proof (intro conjI impI)
  assume "percent \<le> 150"
  then show "get_figure applicable_figures percent = Inr 0"
    by (rule get_figure_low)
next
  assume "400 < percent"
  then show "get_figure applicable_figures percent = Inr (float4 850)"
    by (rule get_figure_high)
next
  assume a: "150 < percent \<and> percent \<le> 400"
  then obtain v where v: "map_of applicable_figures_dict percent = Some v"
    using figures_dom [of percent] by auto
  with a show "\<exists>v. map_of applicable_figures_dict percent = Some v \<and>
           get_figure applicable_figures percent = Inr v"
    by (simp add: get_figure_inside)
qed

theorem get_figure_clamps_witness:
  "get_figure applicable_figures 0 = Inr 0 \<and>
   get_figure applicable_figures 150 = Inr 0 \<and>
   get_figure applicable_figures 401 = Inr (float4 850) \<and>
   get_figure applicable_figures 500 = Inr (float4 850) \<and>
   get_figure applicable_figures 278 = Inr (float4 512)"
  using get_figure_clamps [of 0] get_figure_clamps [of 150] get_figure_clamps [of 401]
    get_figure_clamps [of 500] get_figure_clamps [of 278] figures_278
  by simp

section \<open>The poverty-line tables\<close>

lemmas poverty_defs =
  poverty_lines_def CONTIGUOUS_48_AND_DC_dict_def ALASKA_dict_def HAWAII_dict_def
  CONTIGUOUS_48_AND_DC_EXTRA_def ALASKA_EXTRA_def HAWAII_EXTRA_def

lemma get_state_table_poverty_lines:
  "get_state_table poverty_lines s = Inr (state_table s)"
  by (cases s) (simp_all add: get_state_table_def state_table_def poverty_lines_def)

lemma state_table_in: "state_table s \<in> set poverty_lines \<and> table_state_of_residence (state_table s) = s"
  by (cases s) (simp_all add: state_table_def poverty_lines_def)

lemma state_table_keys: "map fst (table_values (state_table s)) = [1, 2, 3, 4, 5, 6, 7, 8]"
  by (cases s) (simp_all add: state_table_def poverty_defs)

lemma state_table_dom:
  assumes "1 \<le> n" "n \<le> 8"
  shows "\<exists>v. map_of (table_values (state_table s)) n = Some v"
proof -
  from assms have "n \<in> set (map fst (table_values (state_table s)))"
    unfolding state_table_keys by simp arith
  then have "map_of (table_values (state_table s)) n \<noteq> None"
    by (simp add: map_of_eq_None_iff)
  then show ?thesis by blast
qed

lemma state_table_outside:
  assumes "n < 1 \<or> 8 < n"
  shows "map_of (table_values (state_table s)) n = None"
proof -
  from assms have "n \<notin> set (map fst (table_values (state_table s)))"
    unfolding state_table_keys by auto
  then show ?thesis
    by (simp add: map_of_eq_None_iff)
qed

lemma state_table_max: "py_max (map fst (table_values (state_table s))) = Inr 8"
  by (simp add: state_table_keys)

text \<open>
  Claim C8. For every residency category the registry holds a table whose largest
  tabulated household size is 8. For every household size from 1 to 8 the lookup returns
  the value tabulated for that size, and for every size \<open>8 + k\<close> with \<open>k > 0\<close> it
  returns the value tabulated for 8 plus \<open>k\<close> times the table's amount for each
  additional person.
\<close>

theorem get_poverty_rate_tabulated:
  "\<exists>t \<in> set poverty_lines.
     table_state_of_residence t = s \<and>
     py_max (map fst (table_values t)) = Inr 8 \<and>
     (1 \<le> n \<and> n \<le> 8 \<longrightarrow>
        (\<exists>v. map_of (table_values t) n = Some v \<and>
             PovertyLines_get_poverty_rate poverty_lines s n = Inr v)) \<and>
     (0 < k \<longrightarrow>
        (\<exists>v. map_of (table_values t) 8 = Some v \<and>
             PovertyLines_get_poverty_rate poverty_lines s (8 + k) =
               Inr (v + k * additional_person_extra t)))"
proof (intro bexI [of _ "state_table s"] conjI impI)
  show "state_table s \<in> set poverty_lines" and "table_state_of_residence (state_table s) = s"
    using state_table_in by simp_all
  show "py_max (map fst (table_values (state_table s))) = Inr 8"
    by (rule state_table_max)
next
  assume "1 \<le> n \<and> n \<le> 8"
  then obtain v where "map_of (table_values (state_table s)) n = Some v"
    using state_table_dom [of n s] by auto
  then show "\<exists>v. map_of (table_values (state_table s)) n = Some v \<and>
             PovertyLines_get_poverty_rate poverty_lines s n = Inr v"
    by (simp add: PovertyLines_get_poverty_rate_def get_state_table_poverty_lines
        PovertyLineTable_get_poverty_rate_def)
next
  assume k: "0 < k"
  obtain v where v: "map_of (table_values (state_table s)) 8 = Some v"
    using state_table_dom [of 8 s] by auto
  from k have "map_of (table_values (state_table s)) (8 + k) = None"
    by (simp add: state_table_outside)
  with v show "\<exists>v. map_of (table_values (state_table s)) 8 = Some v \<and>
             PovertyLines_get_poverty_rate poverty_lines s (8 + k) =
               Inr (v + k * additional_person_extra (state_table s))"
    by (simp add: PovertyLines_get_poverty_rate_def get_state_table_poverty_lines
        PovertyLineTable_get_poverty_rate_def state_table_max getitem_def)
qed

theorem get_poverty_rate_tabulated_witness:
  "PovertyLines_get_poverty_rate poverty_lines HAWAII 3 = Inr 26490 \<and>
   PovertyLines_get_poverty_rate poverty_lines HAWAII 10 = Inr 64500"
  using get_poverty_rate_tabulated [of HAWAII 3 2]
  by (auto simp add: poverty_defs)

section \<open>The derivation chain of the form\<close>

lemma poverty_line_state_table:
  "poverty_line form =
     PovertyLineTable_get_poverty_rate (state_table (state_of_residence form))
       (tax_family_size form)"
  by (simp add: poverty_line_def PovertyLines_get_poverty_rate_def get_state_table_poverty_lines)

lemma state_table_simps:
  "state_table CONTIGUOUS_48_AND_DC =
     \<lparr>table_state_of_residence = CONTIGUOUS_48_AND_DC,
      table_values = CONTIGUOUS_48_AND_DC_dict,
      additional_person_extra = CONTIGUOUS_48_AND_DC_EXTRA\<rparr>"
  "state_table ALASKA =
     \<lparr>table_state_of_residence = ALASKA,
      table_values = ALASKA_dict,
      additional_person_extra = ALASKA_EXTRA\<rparr>"
  "state_table HAWAII =
     \<lparr>table_state_of_residence = HAWAII,
      table_values = HAWAII_dict,
      additional_person_extra = HAWAII_EXTRA\<rparr>"
  by (simp_all add: state_table_def poverty_lines_def)

lemma table_rate_inside:
  assumes "1 \<le> n" "n \<le> 8"
  shows "\<exists>pl. PovertyLineTable_get_poverty_rate (state_table s) n = Inr pl \<and> 0 < pl"
proof -
  from assms have "n \<in> {1, 2, 3, 4, 5, 6, 7, 8}"
    by simp arith
  then show ?thesis
    by (cases s)
      (auto simp add: state_table_simps PovertyLineTable_get_poverty_rate_def
        CONTIGUOUS_48_AND_DC_dict_def ALASKA_dict_def HAWAII_dict_def)
qed

lemma table_rate_outside:
  assumes "n < 1 \<or> 8 < n"
  shows "PovertyLineTable_get_poverty_rate (state_table s) n =
           Inr (the (map_of (table_values (state_table s)) 8) +
                (n - 8) * additional_person_extra (state_table s))"
proof -
  obtain v where v: "map_of (table_values (state_table s)) 8 = Some v"
    using state_table_dom [of 8 s] by auto
  with assms show ?thesis
    by (simp add: PovertyLineTable_get_poverty_rate_def state_table_outside state_table_max
        getitem_def)
qed



lemma nonzero_by_mod:
  fixes a b m :: int
  assumes "(a + b * m) mod m \<noteq> 0"
  shows "a + b * m \<noteq> 0"
proof
  assume "a + b * m = 0"
  then have "(a + b * m) mod m = 0 mod m" by (simp only:)
  with assms show False by simp
qed

lemma extrapolation_nonzero:
  "46630 + (n - 8) * 4720 \<noteq> (0::int)"
  "58290 + (n - 8) * 5900 \<noteq> (0::int)"
  "53640 + (n - 8) * 5430 \<noteq> (0::int)"
  by (rule nonzero_by_mod, simp)+

lemma table_rate_total:
  "\<exists>pl. PovertyLineTable_get_poverty_rate (state_table s) n = Inr pl \<and> pl \<noteq> 0"
proof (cases "1 \<le> n \<and> n \<le> 8")
  case True
  then show ?thesis using table_rate_inside [of n s] by auto
next
  case False
  then have out: "n < 1 \<or> 8 < n" by arith
  have "the (map_of (table_values (state_table s)) 8) +
          (n - 8) * additional_person_extra (state_table s) \<noteq> 0"
    using extrapolation_nonzero [of n]
    by (cases s)
      (simp_all add: state_table_simps CONTIGUOUS_48_AND_DC_dict_def
        CONTIGUOUS_48_AND_DC_EXTRA_def ALASKA_dict_def ALASKA_EXTRA_def
        HAWAII_dict_def HAWAII_EXTRA_def)
  with table_rate_outside [OF out, of s] show ?thesis by simp
qed

lemma poverty_line_total: "\<exists>pl. poverty_line form = Inr pl \<and> pl \<noteq> 0"
  unfolding poverty_line_state_table by (rule table_rate_total)

lemma percent_total: "\<exists>p. percent_of_poverty_line form = Inr p"
proof -
  obtain pl where "poverty_line form = Inr pl" "pl \<noteq> 0"
    using poverty_line_total by blast
  then show ?thesis
    by (simp add: percent_of_poverty_line_def fdiv_def)
qed

lemma applicable_figure_total: "\<exists>v. applicable_figure form = Inr v"
proof -
  obtain p where "percent_of_poverty_line form = Inr p"
    using percent_total by blast
  then show ?thesis
    using get_figure_total [of p] by (simp add: applicable_figure_def)
qed


lemma contiguous_rate_1:
  "PovertyLineTable_get_poverty_rate (state_table CONTIGUOUS_48_AND_DC) 1 = Inr 13590"
  by (simp add: state_table_simps PovertyLineTable_get_poverty_rate_def
      CONTIGUOUS_48_AND_DC_dict_def)

text \<open>
  Claim C1. A form with tax family size 4, residence in the contiguous states or DC,
  modified AGI 77194 and no dependents' AGI has poverty line 27750, percent of poverty
  line 278, applicable figure \<open>0.0512\<close>, annual contribution 3952 and monthly
  contribution 329, whatever its other fields are.
\<close>

theorem chain_77194:
  assumes "tax_family_size form = 4"
    and "state_of_residence form = CONTIGUOUS_48_AND_DC"
    and "modified_agi form = 77194"
    and "dependents_modified_agi form = None"
  shows "poverty_line form = Inr 27750 \<and>
         percent_of_poverty_line form = Inr 278 \<and>
         applicable_figure form = Inr (float4 512) \<and>
         annual_contribution form = Inr 3952 \<and>
         monthly_contribution form = Inr 329"
proof -
  have hi: "household_income form = 77194"
    using assms by (simp add: household_income_def)
  have pl: "poverty_line form = Inr 27750"
    using assms
    by (simp add: poverty_line_state_table state_table_simps
        PovertyLineTable_get_poverty_rate_def CONTIGUOUS_48_AND_DC_dict_def)
  have pc: "percent_of_poverty_line form = Inr 278"
    unfolding percent_of_poverty_line_def pl hi by code_simp
  have af: "applicable_figure form = Inr (float4 512)"
    unfolding applicable_figure_def pc by (simp add: get_figure_inside figures_278)
  have ac: "annual_contribution form = Inr 3952"
    unfolding annual_contribution_def af hi by code_simp
  have mc: "monthly_contribution form = Inr 329"
    unfolding monthly_contribution_def ac by code_simp
  from pl pc af ac mc show ?thesis by simp
qed

theorem chain_77194_witness:
  "tax_family_size my_form = 4 \<and>
   state_of_residence my_form = CONTIGUOUS_48_AND_DC \<and>
   modified_agi my_form = 77194 \<and>
   dependents_modified_agi my_form = None \<and>
   poverty_line my_form = Inr 27750 \<and>
   percent_of_poverty_line my_form = Inr 278 \<and>
   applicable_figure my_form = Inr (float4 512) \<and>
   annual_contribution my_form = Inr 3952 \<and>
   monthly_contribution my_form = Inr 329"
  using chain_77194 [of my_form] by (simp add: my_form_def)

lemma single_person_chain:
  assumes "tax_family_size form = 1"
    and "state_of_residence form = CONTIGUOUS_48_AND_DC"
    and "dependents_modified_agi form = None"
  shows "poverty_line form = Inr 13590"
    and "household_income form = modified_agi form"
  using assms
  by (simp_all add: poverty_line_state_table contiguous_rate_1 household_income_def)

text \<open>
  Claim C4, at a single filer in the contiguous states with household income 31257. The
  poverty line is 13590 and the ratio \<open>31257 / 13590\<close> is exactly \<open>2.3\<close>, at most
  \<open>4.0\<close>, so the ratio times 100 truncated to an integer is 230. The source divides and
  multiplies in double precision: the quotient is the double just below \<open>2.3\<close>, its
  product with 100 is \<open>229.99999999999997\<close>, and \<open>percent_of_poverty_line\<close> is 229.
\<close>

theorem percent_of_poverty_line_31257:
  "poverty_line (my_form\<lparr>tax_family_size := 1, modified_agi := 31257\<rparr>) = Inr 13590 \<and>
   household_income (my_form\<lparr>tax_family_size := 1, modified_agi := 31257\<rparr>) = 31257 \<and>
   percent_of_poverty_line (my_form\<lparr>tax_family_size := 1, modified_agi := 31257\<rparr>) = Inr 229 \<and>
   make_whole_number (31257 / 13590 * 100) = 230"
proof -
  let ?f = "my_form\<lparr>tax_family_size := 1, modified_agi := 31257\<rparr>"
  have pl: "poverty_line ?f = Inr 13590" and hi: "household_income ?f = 31257"
    using single_person_chain [of ?f] by (simp_all add: my_form_def)
  have pc: "percent_of_poverty_line ?f = Inr 229"
    unfolding percent_of_poverty_line_def pl hi by code_simp
  have "make_whole_number (31257 / 13590 * 100) = 230"
    by code_simp
  with pl hi pc show ?thesis by simp
qed

lemma py_round_nearest:
  "\<bar>of_int (py_round x) - x\<bar> \<le> 1 / 2 \<and>
   (\<bar>of_int (py_round x) - x\<bar> = 1 / 2 \<longrightarrow> even (py_round x))"
  unfolding py_round_def by (rule round_half_even_nearest)















lemma contiguous_rate_3:
  "PovertyLineTable_get_poverty_rate (state_table CONTIGUOUS_48_AND_DC) 3 = Inr 23030"
  by (simp add: state_table_simps PovertyLineTable_get_poverty_rate_def
      CONTIGUOUS_48_AND_DC_dict_def)

lemma figures_240: "map_of applicable_figures_dict 240 = Some (float4 360)"
  by (simp add: applicable_figures_dict_def)

text \<open>
  The double-precision product can fall beside an exact tie: for a family of three with
  household income 55375 the applicable figure is \<open>0.0360\<close> and the exact product is
  \<open>1993.5\<close>, but the product of the doubles is \<open>1993.4999999999998\<close> and the annual
  contribution is 1993. The amended claim below does not speak of such products.
\<close>

lemma chain_55375:
  "applicable_figure (my_form\<lparr>tax_family_size := 3, modified_agi := 55375\<rparr>) = Inr (float4 360)"
  "(55375 * 360 / 10000 :: rat) = 3987 / 2"
  "fmul 55375 (float4 360) < 3987 / 2"
  "annual_contribution (my_form\<lparr>tax_family_size := 3, modified_agi := 55375\<rparr>) = Inr 1993"
proof -
  let ?f = "my_form\<lparr>tax_family_size := 3, modified_agi := 55375\<rparr>"
  have pl: "poverty_line ?f = Inr 23030"
    by (simp add: poverty_line_state_table contiguous_rate_3 my_form_def)
  have hi: "household_income ?f = 55375"
    by (simp add: household_income_def my_form_def)
  have pc: "percent_of_poverty_line ?f = Inr 240"
    unfolding percent_of_poverty_line_def pl hi by code_simp
  show af: "applicable_figure ?f = Inr (float4 360)"
    unfolding applicable_figure_def pc by (simp add: get_figure_inside figures_240)
  show "(55375 * 360 / 10000 :: rat) = 3987 / 2"
    by simp
  show "fmul 55375 (float4 360) < 3987 / 2"
    by code_simp
  show "annual_contribution ?f = Inr 1993"
    unfolding annual_contribution_def af hi by code_simp
qed



section \<open>Monthly totals and the net tax credit\<close>

lemmas table_defs =
  MonthlyCalculationTable_init_def MonthlyCalculationTable_default_def setattr_def
  MonthlyCalculationTable_total_tax_credit_def MonthlyCalculationTable_total_advance_payment_def
  model_fields_def MonthlyCalculationRow_init_def make_whole_number_def
  monthly_allowed_tax_credit_def monthly_max_premium_assist_def

lemma credit_loop_sum:
  "credit_loop t ms acc =
     acc + sum_list (map (\<lambda>m. case getattr t m of None \<Rightarrow> 0
                                 | Some r \<Rightarrow> monthly_allowed_tax_credit r) ms)"
  by (induction ms arbitrary: acc) (auto split: option.splits)

lemma advance_loop_sum:
  assumes "\<forall>m \<in> set ms. getattr t m \<noteq> None"
  shows "advance_loop t ms acc = Inr (acc + sum_list (map (\<lambda>m. col_f (the (getattr t m))) ms))"
  using assms by (induction ms arbitrary: acc) (auto split: option.splits)

lemma advance_loop_None:
  assumes "m \<in> set ms" "getattr t m = None"
  shows "advance_loop t ms acc = Inl AttributeError"
  using assms by (induction ms arbitrary: acc) (auto split: option.splits)

lemma credit_loop_order:
  assumes "distinct ms" "distinct ms'" "set ms = set ms'"
  shows "credit_loop t ms 0 = credit_loop t ms' 0"
  using assms by (simp add: credit_loop_sum sum_list_distinct_conv_sum_set)

lemma advance_loop_order:
  assumes "distinct ms" "distinct ms'" "set ms = set ms'"
  shows "advance_loop t ms 0 = advance_loop t ms' 0"
proof (cases "\<forall>m \<in> set ms. getattr t m \<noteq> None")
  case True
  with assms show ?thesis
    by (simp add: advance_loop_sum sum_list_distinct_conv_sum_set)
next
  case False
  then obtain m where "m \<in> set ms" "getattr t m = None" by blast
  with assms show ?thesis
    by (simp add: advance_loop_None)
qed

text \<open>
  Claim C7, at the table built by \<open>MonthlyCalculationTable(january=None)\<close>. All twelve
  slots of the table are absent and \<open>january\<close> is the one field that was set.
  \<open>total_tax_credit\<close> skips the absent slot and is 0; \<open>total_advance_payment\<close> visits the
  fields that were set, reads \<open>f\<close> of the absent \<open>january\<close> and raises
  \<open>AttributeError\<close>. The table built with no argument totals 0.
\<close>

theorem total_advance_payment_explicit_None:
  "map (getattr (MonthlyCalculationTable_init [(January, None)])) model_fields =
     replicate 12 None \<and>
   model_fields_set (MonthlyCalculationTable_init [(January, None)]) = [January] \<and>
   MonthlyCalculationTable_total_tax_credit (MonthlyCalculationTable_init [(January, None)]) = 0 \<and>
   MonthlyCalculationTable_total_advance_payment (MonthlyCalculationTable_init [(January, None)]) =
     Inl AttributeError \<and>
   MonthlyCalculationTable_total_advance_payment (MonthlyCalculationTable_init []) = Inr 0"
  by (simp add: table_defs numeral_eq_Suc)

lemma total_tax_credit_monthly:
  assumes "\<not> line_10 form" "monthly_calculation form = Some table"
  shows "total_tax_credit form = Inr (MonthlyCalculationTable_total_tax_credit table)"
  using assms by (simp add: total_tax_credit_def annual_allowed_tax_credit_def)

lemma total_advance_payment_monthly:
  assumes "annual_advance_payment form = None" "monthly_calculation form = Some table"
  shows "total_advance_payment form = MonthlyCalculationTable_total_advance_payment table"
  using assms by (simp add: total_advance_payment_def)

text \<open>
  Claim C2, at a form with \<open>line_10\<close> false, an annual advance payment of 500 supplied
  all the same, and a monthly table whose only row is January with premium 700, SLCSP
  premium 500, contribution 329 and advance payment 100. The table's total credit is 171
  and its total advance payment is 100. \<open>total_tax_credit\<close> is the table's 171, but
  \<open>total_advance_payment\<close> is the annual field's 500, not the table's 100.
\<close>

theorem total_advance_payment_ignores_line_10:
  "line_10 (my_form\<lparr>annual_advance_payment := Some 500, monthly_calculation := Some
      (MonthlyCalculationTable_init
       [(January, Some (MonthlyCalculationRow_init 700 500 329 100))])\<rparr>) = False \<and>
   MonthlyCalculationTable_total_tax_credit
     (MonthlyCalculationTable_init
       [(January, Some (MonthlyCalculationRow_init 700 500 329 100))]) = 171 \<and>
   MonthlyCalculationTable_total_advance_payment
     (MonthlyCalculationTable_init
       [(January, Some (MonthlyCalculationRow_init 700 500 329 100))]) = Inr 100 \<and>
   total_tax_credit (my_form\<lparr>annual_advance_payment := Some 500, monthly_calculation := Some
      (MonthlyCalculationTable_init
       [(January, Some (MonthlyCalculationRow_init 700 500 329 100))])\<rparr>) = Inr 171 \<and>
   total_advance_payment (my_form\<lparr>annual_advance_payment := Some 500, monthly_calculation := Some
      (MonthlyCalculationTable_init
       [(January, Some (MonthlyCalculationRow_init 700 500 329 100))])\<rparr>) = Inr 500"
  by (simp add: table_defs my_form_def total_tax_credit_def total_advance_payment_def
      annual_allowed_tax_credit_def)

lemma net_tax_credit_cases:
  assumes "total_tax_credit form = Inr credit"
    and "total_advance_payment form = Inr payment"
  shows "(payment < credit \<longrightarrow> net_tax_credit form = Inr (Some (credit - payment))) \<and>
         (credit = payment \<longrightarrow> net_tax_credit form = Inr (Some 0)) \<and>
         (credit < payment \<longrightarrow> net_tax_credit form = Inr None) \<and>
         (\<forall>v. net_tax_credit form = Inr (Some v) \<longrightarrow> 0 \<le> v)"
  using assms by (auto simp add: net_tax_credit_def)

lemma net_tax_credit_raises:
  assumes "total_advance_payment form = Inl e"
  shows "\<exists>e'. net_tax_credit form = Inl e'"
  using assms by (simp add: net_tax_credit_def split: sum.splits)

text \<open>
  Claim C6, at a form on the monthly path whose table was built with a January row of
  premium 1000, SLCSP premium 1000, contribution 0 and advance payment 600, and with
  \<open>february=None\<close>. The total tax credit is 1000, so the net result of the claim would be
  an additional credit; but \<open>total_advance_payment\<close> reads \<open>f\<close> of the absent February
  slot and raises \<open>AttributeError\<close>, and so does \<open>net_tax_credit\<close>: it is none of the
  three outcomes. Built without the \<open>february\<close> argument, the same form has the net tax
  credit 400.
\<close>

theorem net_tax_credit_absent_slot:
  "line_10 (my_form\<lparr>monthly_calculation := Some (MonthlyCalculationTable_init
      [(January, Some (MonthlyCalculationRow_init 1000 1000 0 600)), (February, None)])\<rparr>) = False \<and>
   total_tax_credit (my_form\<lparr>monthly_calculation := Some (MonthlyCalculationTable_init
      [(January, Some (MonthlyCalculationRow_init 1000 1000 0 600)), (February, None)])\<rparr>) =
     Inr 1000 \<and>
   total_advance_payment (my_form\<lparr>monthly_calculation := Some (MonthlyCalculationTable_init
      [(January, Some (MonthlyCalculationRow_init 1000 1000 0 600)), (February, None)])\<rparr>) =
     Inl AttributeError \<and>
   net_tax_credit (my_form\<lparr>monthly_calculation := Some (MonthlyCalculationTable_init
      [(January, Some (MonthlyCalculationRow_init 1000 1000 0 600)), (February, None)])\<rparr>) =
     Inl AttributeError \<and>
   net_tax_credit (my_form\<lparr>monthly_calculation := Some (MonthlyCalculationTable_init
      [(January, Some (MonthlyCalculationRow_init 1000 1000 0 600))])\<rparr>) = Inr (Some 400)"
  by (simp add: table_defs my_form_def net_tax_credit_def total_tax_credit_def
      total_advance_payment_def annual_allowed_tax_credit_def)

section \<open>Construction and the masked identifier\<close>

lemma literal_mask: "literal ''***-**-****'' = [42, 42, 42, 45, 42, 42, 45, 42, 42, 42, 42]"
  by (simp add: literal_def)

lemma not_digit_mask: "\<not> digit 42" "\<not> digit 45" "\<not> digit 10"
  by (simp_all add: digit_def decimal_zeros_def)

lemma digit_block:
  assumes "z \<in> set decimal_zeros" "z \<le> ch" "ch < z + 10"
  shows "digit ch"
  using assms unfolding digit_def by blast

lemma zeros_known: "48 \<in> set decimal_zeros" "65296 \<in> set decimal_zeros"
  by (simp_all add: decimal_zeros_def)

lemma digit_ascii: "48 \<le> ch \<Longrightarrow> ch \<le> 57 \<Longrightarrow> digit ch"
  by (rule digit_block [OF zeros_known(1)]) simp_all



lemma literal_ssn:
  "literal ''123-45-6789'' = [49, 50, 51, 45, 52, 53, 45, 54, 55, 56, 57]"
  "literal ''987654321'' = [57, 56, 55, 54, 53, 52, 51, 50, 49]"
  "literal ''12345'' = [49, 50, 51, 52, 53]"
  by (simp_all add: literal_def)

lemma ssn_pattern_my_form: "ssn_pattern (literal ''123-45-6789'')"
  by (simp add: ssn_pattern_def fullmatch_ssn_def literal_ssn digit_ascii)

lemma ssn_pattern_plain: "ssn_pattern (literal ''987654321'')"
  by (simp add: ssn_pattern_def fullmatch_ssn_def literal_ssn digit_ascii)



lemma my_form_init: "Form8962_init my_form_kwargs = Inr my_form"
  by (simp add: Form8962_init_def validate_ssn_pattern_def my_form_kwargs_def my_form_def
      ssn_pattern_my_form make_whole_number_def)




text \<open>
  Claim C10. For any two validly constructed forms the displayed identifier is the fixed
  mask \<open>***-**-****\<close>, the same for both whatever their identifiers are, and none of
  its characters is a digit.
\<close>

theorem ssn_display_masked:
  assumes "Form8962_init kw1 = Inr form1"
    and "Form8962_init kw2 = Inr form2"
  shows "SSN_display (ssn form1) = literal ''***-**-****'' \<and>
         SSN_display (ssn form1) = SSN_display (ssn form2) \<and>
         (\<forall>ch \<in> set (SSN_display (ssn form1)). \<not> digit ch)"
  by (simp add: SSN_display_def literal_mask not_digit_mask)

theorem ssn_display_masked_witness:
  "Form8962_init my_form_kwargs = Inr my_form \<and>
   Form8962_init (my_form_kwargs\<lparr>kw_ssn := literal ''987654321''\<rparr>) =
     Inr (my_form\<lparr>ssn := literal ''987654321''\<rparr>) \<and>
   ssn my_form \<noteq> ssn (my_form\<lparr>ssn := literal ''987654321''\<rparr>) \<and>
   SSN_display (ssn my_form) = literal ''***-**-****'' \<and>
   SSN_display (ssn my_form) = SSN_display (ssn (my_form\<lparr>ssn := literal ''987654321''\<rparr>)) \<and>
   list_all (\<lambda>ch. \<not> digit ch) (SSN_display (ssn my_form))"
proof -
  have i1: "Form8962_init my_form_kwargs = Inr my_form"
    by (rule my_form_init)
  have i2: "Form8962_init (my_form_kwargs\<lparr>kw_ssn := literal ''987654321''\<rparr>) =
     Inr (my_form\<lparr>ssn := literal ''987654321''\<rparr>)"
    by (simp add: Form8962_init_def validate_ssn_pattern_def my_form_kwargs_def my_form_def
        ssn_pattern_plain make_whole_number_def)
  have ne: "ssn my_form \<noteq> ssn (my_form\<lparr>ssn := literal ''987654321''\<rparr>)"
    by (simp add: my_form_def literal_ssn)
  show ?thesis
    using ssn_display_masked [OF i1 i2] i1 i2 ne unfolding list_all_iff by blast
qed

end
